theory Spec2Isabelle
  imports Complex_Main
begin

section \<open>Token model (lexer/tokens.py)\<close>

text \<open>
  A \<^verbatim>\<open>Token\<close> is a dataclass with five fields. The field \<^verbatim>\<open>tk_type\<close> is declared
  \<^verbatim>\<open>int\<close>; the members of the \<^verbatim>\<open>IntEnum\<close> \<^verbatim>\<open>TokenType\<close> are numbered by
  \<^verbatim>\<open>auto()\<close> from 1 in the order of their declaration and compare by value.
\<close>

record Token =
  keyword :: string
  index :: int
  line :: int
  tk_type :: int
  tab :: real

named_theorems TokenType \<open>values of the members of TokenType\<close>

definition tk_plus :: int where [TokenType]: "tk_plus = 1"
definition tk_minus :: int where [TokenType]: "tk_minus = 2"
definition tk_divide :: int where [TokenType]: "tk_divide = 3"
definition tk_asterisk :: int where [TokenType]: "tk_asterisk = 4"
definition tk_xor :: int where [TokenType]: "tk_xor = 5"
definition tk_modulo :: int where [TokenType]: "tk_modulo = 6"
definition tk_greater :: int where [TokenType]: "tk_greater = 7"
definition tk_less :: int where [TokenType]: "tk_less = 8"
definition tk_ampersand :: int where [TokenType]: "tk_ampersand = 9"
definition tk_bit_or :: int where [TokenType]: "tk_bit_or = 10"
definition tk_bit_not :: int where [TokenType]: "tk_bit_not = 11"
definition tk_assign :: int where [TokenType]: "tk_assign = 12"
definition tk_excl :: int where [TokenType]: "tk_excl = 13"
definition tk_colon :: int where [TokenType]: "tk_colon = 14"
definition tk_dot :: int where [TokenType]: "tk_dot = 15"
definition tk_l_paren :: int where [TokenType]: "tk_l_paren = 16"
definition tk_r_paren :: int where [TokenType]: "tk_r_paren = 17"
definition tk_hashtag :: int where [TokenType]: "tk_hashtag = 18"
definition tk_comma :: int where [TokenType]: "tk_comma = 19"
definition tk_exponent :: int where [TokenType]: "tk_exponent = 20"
definition tk_equal :: int where [TokenType]: "tk_equal = 21"
definition tk_not_equal :: int where [TokenType]: "tk_not_equal = 22"
definition tk_floor :: int where [TokenType]: "tk_floor = 23"
definition tk_gr_or_equ :: int where [TokenType]: "tk_gr_or_equ = 24"
definition tk_less_or_equ :: int where [TokenType]: "tk_less_or_equ = 25"
definition tk_increment :: int where [TokenType]: "tk_increment = 26"
definition tk_decrement :: int where [TokenType]: "tk_decrement = 27"
definition tk_arrow :: int where [TokenType]: "tk_arrow = 28"
definition tk_shift_right :: int where [TokenType]: "tk_shift_right = 29"
definition tk_shift_left :: int where [TokenType]: "tk_shift_left = 30"
definition tk_floor_equal :: int where [TokenType]: "tk_floor_equal = 31"
definition tk_plus_equal :: int where [TokenType]: "tk_plus_equal = 32"
definition tk_minus_equal :: int where [TokenType]: "tk_minus_equal = 33"
definition tk_times_equal :: int where [TokenType]: "tk_times_equal = 34"
definition tk_slash_equal :: int where [TokenType]: "tk_slash_equal = 35"
definition tk_mod_equal :: int where [TokenType]: "tk_mod_equal = 36"
definition tk_shift_right_equal :: int where [TokenType]: "tk_shift_right_equal = 37"
definition tk_shift_left_equal :: int where [TokenType]: "tk_shift_left_equal = 38"
definition tk_bit_and_equal :: int where [TokenType]: "tk_bit_and_equal = 39"
definition tk_bit_or_equal :: int where [TokenType]: "tk_bit_or_equal = 40"
definition tk_bit_xor_equal :: int where [TokenType]: "tk_bit_xor_equal = 41"
definition tk_identifier :: int where [TokenType]: "tk_identifier = 42"
definition tk_true :: int where [TokenType]: "tk_true = 43"
definition tk_false :: int where [TokenType]: "tk_false = 44"
definition tk_none :: int where [TokenType]: "tk_none = 45"
definition tk_const :: int where [TokenType]: "tk_const = 46"
definition tk_import :: int where [TokenType]: "tk_import = 47"
definition tk_cppimport :: int where [TokenType]: "tk_cppimport = 48"
definition tk_himport :: int where [TokenType]: "tk_himport = 49"
definition tk_if :: int where [TokenType]: "tk_if = 50"
definition tk_else :: int where [TokenType]: "tk_else = 51"
definition tk_elif :: int where [TokenType]: "tk_elif = 52"
definition tk_while :: int where [TokenType]: "tk_while = 53"
definition tk_for :: int where [TokenType]: "tk_for = 54"
definition tk_break :: int where [TokenType]: "tk_break = 55"
definition tk_continue :: int where [TokenType]: "tk_continue = 56"
definition tk_match :: int where [TokenType]: "tk_match = 57"
definition tk_extern :: int where [TokenType]: "tk_extern = 58"
definition tk_case :: int where [TokenType]: "tk_case = 59"
definition tk_default :: int where [TokenType]: "tk_default = 60"
definition tk_def :: int where [TokenType]: "tk_def = 61"
definition tk_pass :: int where [TokenType]: "tk_pass = 62"
definition tk_return :: int where [TokenType]: "tk_return = 63"
definition tk_and :: int where [TokenType]: "tk_and = 64"
definition tk_or :: int where [TokenType]: "tk_or = 65"
definition tk_not :: int where [TokenType]: "tk_not = 66"
definition tk_is :: int where [TokenType]: "tk_is = 67"
definition tk_in :: int where [TokenType]: "tk_in = 68"
definition tk_cppcode :: int where [TokenType]: "tk_cppcode = 69"
definition tk_class :: int where [TokenType]: "tk_class = 70"
definition tk_struct :: int where [TokenType]: "tk_struct = 71"
definition tk_str :: int where [TokenType]: "tk_str = 72"
definition tk_bool :: int where [TokenType]: "tk_bool = 73"
definition tk_char :: int where [TokenType]: "tk_char = 74"
definition tk_float :: int where [TokenType]: "tk_float = 75"
definition tk_float32 :: int where [TokenType]: "tk_float32 = 76"
definition tk_void :: int where [TokenType]: "tk_void = 77"
definition tk_int :: int where [TokenType]: "tk_int = 78"
definition tk_int32 :: int where [TokenType]: "tk_int32 = 79"
definition tk_int16 :: int where [TokenType]: "tk_int16 = 80"
definition tk_int8 :: int where [TokenType]: "tk_int8 = 81"
definition tk_uint32 :: int where [TokenType]: "tk_uint32 = 82"
definition tk_uint16 :: int where [TokenType]: "tk_uint16 = 83"
definition tk_uint8 :: int where [TokenType]: "tk_uint8 = 84"
definition tk_uint :: int where [TokenType]: "tk_uint = 85"
definition decimal :: int where [TokenType]: "decimal = 86"
definition integer :: int where [TokenType]: "integer = 87"
definition cpp :: int where [TokenType]: "cpp = 88"
definition array :: int where [TokenType]: "array = 89"
definition dictionary :: int where [TokenType]: "dictionary = 90"
definition string :: int where [TokenType]: "string = 91"
definition tk_ident :: int where [TokenType]: "tk_ident = 92"
definition tk_dedent :: int where [TokenType]: "tk_dedent = 93"
definition tk_raw :: int where [TokenType]: "tk_raw = 94"
definition tk_format :: int where [TokenType]: "tk_format = 95"

section \<open>AST model (parser/ast.py)\<close>

text \<open>
  Modelled from the spec: the node classes \<^verbatim>\<open>VariableDeclaration\<close> and
  \<^verbatim>\<open>VariableReassignment\<close>, which parser.py constructs and ast.py does not define.
  The spec gives their fields: a declaration carries the declared type token, the name and
  an optional initializer; a reassignment carries the target name and the new value. The
  other constructors are the classes of ast.py. A \<^verbatim>\<open>Program\<close> instance has no field
  of its own: \<^verbatim>\<open>nodes\<close> is an attribute of the class (see \<open>Program_nodes\<close> below).
\<close>

datatype Node =
    Program
  | IntegerLiteral string
  | StringLiteral string
  | BoolLiteral bool
  | Identifier string
  | BinaryOperation Node string Node
  | PrefixExpression string Node
  | VariableDeclaration Token string "Node option"
  | VariableReassignment string Node

text \<open>
  \<^verbatim>\<open>__str__\<close> of the six expression classes. The result is \<open>None\<close> for the nodes
  whose rendering ast.py does not give: the two undefined classes, and \<^verbatim>\<open>Program\<close>,
  whose rendering reads the class attribute.
\<close>

fun Node_str :: "Node \<Rightarrow> string option" where
  "Node_str (IntegerLiteral v) = Some v"
| "Node_str (StringLiteral v) = Some v"
| "Node_str (BoolLiteral v) = Some (if v then ''true'' else ''false'')"
| "Node_str (Identifier v) = Some v"
| "Node_str (BinaryOperation l operator r) =
     (case Node_str l of None \<Rightarrow> None
      | Some ls \<Rightarrow> (case Node_str r of None \<Rightarrow> None
         | Some rs \<Rightarrow> Some (''('' @ ls @ '' '' @ operator @ '' '' @ rs @ '')'')))"
| "Node_str (PrefixExpression prefix v) =
     (case Node_str v of None \<Rightarrow> None
      | Some vs \<Rightarrow> Some (''('' @ prefix @ vs @ '')''))"
| "Node_str Program = None"
| "Node_str (VariableDeclaration t n v) = None"
| "Node_str (VariableReassignment n v) = None"

section \<open>Diagnostics\<close>

text \<open>
  Modelled from the spec: the module \<^verbatim>\<open>errors.errors\<close> is imported by parser.py and is
  not among the sources. A location bundles line, column, file name and the source line;
  a diagnostic pairs a location with a title, a message, a hint and an error code.
\<close>

datatype Location = Location int int string string

datatype PEError = PEError Location string string string string

section \<open>Parser state (parser/parser.py)\<close>

definition pr_lowest :: int where "pr_lowest = 1"
definition pr_and :: int where "pr_and = 2"
definition pr_not :: int where "pr_not = 3"
definition pr_equal :: int where "pr_equal = 4"
definition pr_sum :: int where "pr_sum = 5"
definition pr_mul :: int where "pr_mul = 6"
definition pr_prefix :: int where "pr_prefix = 7"

lemmas Precedence = pr_lowest_def pr_and_def pr_not_def pr_equal_def pr_sum_def pr_mul_def
  pr_prefix_def

definition precedenceMap :: "int \<Rightarrow> int option" where
  "precedenceMap = map_of
     [(tk_and, pr_and),
      (tk_or, pr_and),
      (tk_not, pr_not),
      (tk_equal, pr_equal),
      (tk_not_equal, pr_equal),
      (tk_greater, pr_equal),
      (tk_less, pr_equal),
      (tk_gr_or_equ, pr_equal),
      (tk_less_or_equ, pr_equal),
      (tk_plus, pr_sum),
      (tk_minus, pr_sum),
      (tk_asterisk, pr_mul),
      (tk_divide, pr_mul)]"

definition LangTypes :: "int list" where
  "LangTypes =
     [tk_str, tk_bool, tk_char, tk_float, tk_float32, tk_void, tk_int, tk_int32, tk_int16,
      tk_int8, tk_uint32, tk_uint16, tk_uint8, tk_uint]"

text \<open>What the process has written to standard output.\<close>

datatype out_event = Printed string | PrintedTag int | Displayed PEError

text \<open>
  The state the parser works on. The first four fields are the attributes of the
  \<^verbatim>\<open>Parser\<close> instance; \<open>tk_index\<close> starts at the class default 0 and is only ever
  incremented, so it is a natural number; \<open>current_token\<close> is \<open>None\<close> as long as the
  attribute has not been assigned. \<open>Parser_errors\<close> and \<open>Program_nodes\<close> are the lists
  \<^verbatim>\<open>Parser.errors\<close> and \<^verbatim>\<open>Program.nodes\<close>: both are created once, in the class
  body, and no instance ever rebinds them, so every instance reads and appends to the
  same list. \<open>stdout\<close> is the output written so far and \<open>files\<close> the files that
  \<^verbatim>\<open>open\<close> can read, as lists of lines.
\<close>

record State =
  tk_index :: nat
  filename :: string
  tokens :: "Token list"
  current_token :: "Token option"
  Parser_errors :: "PEError list"
  Program_nodes :: "Node option list"
  stdout :: "out_event list"
  files :: "(string \<times> string list) list"

datatype error =
    AttributeError string
  | UnboundLocalError string
  | KeyError int
  | FileNotFoundError string
  | SystemExit int

text \<open>
  The outcome of a call: it returns a value, or raises, both with the state reached, or
  the fuel of the model ran out before the call came back.
\<close>

datatype 'a outcome = Returned 'a State | Raised error State | OutOfFuel

fun then_do :: "'a outcome \<Rightarrow> ('a \<Rightarrow> State \<Rightarrow> 'b outcome) \<Rightarrow> 'b outcome" where
  "then_do (Returned x s) f = f x s"
| "then_do (Raised e s) f = Raised e s"
| "then_do OutOfFuel f = OutOfFuel"

subsection \<open>Cursor\<close>

definition advance :: "State \<Rightarrow> State" where
  "advance s =
     (if tk_index s \<ge> length (tokens s) then s
      else s\<lparr>current_token := Some (tokens s ! tk_index s), tk_index := tk_index s + 1\<rparr>)"

definition nextToken :: "State \<Rightarrow> Token option" where
  "nextToken s =
     (if tk_index s < length (tokens s) then Some (tokens s ! tk_index s) else None)"

text \<open>
  A mismatch is detected and nothing is done about it (\<^verbatim>\<open>pass # panic\<close>); when there
  is no next token, reading \<^verbatim>\<open>tk_type\<close> of \<^verbatim>\<open>None\<close> raises.
\<close>

definition expect :: "int \<Rightarrow> State \<Rightarrow> unit outcome" where
  "expect tokenType s =
     (case nextToken s of
        None \<Rightarrow> Raised (AttributeError ''tk_type'') s
      | Some t \<Rightarrow>
          (if tk_type t \<noteq> tokenType then Returned () (advance s)
           else Returned () (advance s)))"

definition nextPrecedence :: "State \<Rightarrow> int" where
  "nextPrecedence s =
     (case nextToken s of
        None \<Rightarrow> pr_lowest
      | Some t \<Rightarrow> (case precedenceMap (tk_type t) of None \<Rightarrow> pr_lowest | Some p \<Rightarrow> p))"

text \<open>\<^verbatim>\<open>Parser(filename, tokens)\<close>: a new instance on the state of the process.\<close>

definition Parser_init :: "string \<Rightarrow> Token list \<Rightarrow> State \<Rightarrow> State" where
  "Parser_init fname toks s =
     advance (s\<lparr>tk_index := 0, filename := fname, tokens := toks, current_token := None\<rparr>)"

text \<open>
  \<^verbatim>\<open>error\<close> reads the source line of the current token from the file and appends a
  diagnostic to the list of the class. No method of the parser calls it.
\<close>

definition error :: "string \<Rightarrow> string \<Rightarrow> State \<Rightarrow> unit outcome" where
  "error message errorCode s =
     (case map_of (files s) (filename s) of
        None \<Rightarrow> Raised (FileNotFoundError (filename s)) s
      | Some code \<Rightarrow>
          (case current_token s of
             None \<Rightarrow> Raised (AttributeError ''current_token'') s
           | Some tok \<Rightarrow>
               (let codeBlock =
                      (if 0 \<le> line tok \<and> nat (line tok) < length code
                       then code ! nat (line tok) else '''');
                    newError = PEError (Location (line tok) (index tok) (filename s) codeBlock)
                                 ''error code str'' message ''error code hint'' errorCode
                in Returned () (s\<lparr>Parser_errors := Parser_errors s @ [newError]\<rparr>))))"

subsection \<open>Expressions\<close>

definition parseInteger :: "Token \<Rightarrow> Node" where
  "parseInteger tok = IntegerLiteral (keyword tok)"

definition parseString :: "Token \<Rightarrow> Node" where
  "parseString tok = StringLiteral (keyword tok)"

definition parseBool :: "Token \<Rightarrow> Node" where
  "parseBool tok = BoolLiteral (tk_type tok = tk_true)"

definition parseIdentifier :: "Token \<Rightarrow> Node" where
  "parseIdentifier tok = Identifier (keyword tok)"

text \<open>
  The expression engine. Its recursion is not bounded by the tokens left (at the end of the
  stream \<open>advance\<close> does nothing and the same token is parsed again), so the model counts
  fuel: one unit for each call of \<^verbatim>\<open>parseExpression\<close> and for each round of its loop.
  \<open>parseExpression_loop\<close> is the \<^verbatim>\<open>while\<close> loop of \<^verbatim>\<open>parseExpression\<close>; its
  argument \<open>left\<close> is \<open>None\<close> as long as the local variable is unbound.
\<close>

function (sequential) parseExpression :: "nat \<Rightarrow> int \<Rightarrow> State \<Rightarrow> Node outcome"
  and parseExpression_loop :: "nat \<Rightarrow> int \<Rightarrow> Node option \<Rightarrow> State \<Rightarrow> Node outcome"
  and parseBinaryOperation :: "nat \<Rightarrow> Node \<Rightarrow> State \<Rightarrow> Node outcome"
  and parsePrefixExpression :: "nat \<Rightarrow> State \<Rightarrow> Node outcome"
  and parseGroupedExpression :: "nat \<Rightarrow> State \<Rightarrow> Node outcome"
where
  "parseExpression 0 precedence s = OutOfFuel"
| "parseExpression (Suc n) precedence s =
     (case current_token s of
        None \<Rightarrow> Raised (AttributeError ''current_token'') s
      | Some tok \<Rightarrow>
          if tk_type tok = tk_int then
            parseExpression_loop n precedence (Some (parseInteger tok)) s
          else if tk_type tok = tk_str then
            parseExpression_loop n precedence (Some (parseString tok)) s
          else if tk_type tok = tk_bool then
            parseExpression_loop n precedence (Some (parseBool tok)) s
          else if tk_type tok = tk_identifier then
            parseExpression_loop n precedence (Some (parseIdentifier tok)) s
          else if tk_type tok = tk_l_paren then
            then_do (parseGroupedExpression n s)
              (\<lambda>left s'. parseExpression_loop n precedence (Some left) s')
          else if tk_type tok = tk_minus then
            then_do (parsePrefixExpression n s)
              (\<lambda>left s'. parseExpression_loop n precedence (Some left) s')
          else
            parseExpression_loop n precedence None
              (s\<lparr>stdout := stdout s @ [Printed ''Error: '', PrintedTag (tk_type tok)]\<rparr>))"
| "parseExpression_loop 0 precedence left s = OutOfFuel"
| "parseExpression_loop (Suc n) precedence left s =
     (if nextPrecedence s > precedence then
        (let s1 = advance s in
         case left of
           None \<Rightarrow> Raised (UnboundLocalError ''left'') s1
         | Some l \<Rightarrow>
             then_do (parseBinaryOperation n l s1)
               (\<lambda>left' s2. parseExpression_loop n precedence (Some left') s2))
      else
        (case left of
           None \<Rightarrow> Raised (UnboundLocalError ''left'') s
         | Some l \<Rightarrow> Returned l s))"
| "parseBinaryOperation n left s =
     (case current_token s of
        None \<Rightarrow> Raised (AttributeError ''current_token'') s
      | Some tok \<Rightarrow>
          (case precedenceMap (tk_type tok) of
             None \<Rightarrow> Raised (KeyError (tk_type tok)) s
           | Some currentPrecedence \<Rightarrow>
               (let operator = keyword tok; s1 = advance s in
                then_do (parseExpression n currentPrecedence s1)
                  (\<lambda>right s2. Returned (BinaryOperation left operator right) s2))))"
| "parsePrefixExpression n s =
     (case current_token s of
        None \<Rightarrow> Raised (AttributeError ''current_token'') s
      | Some tok \<Rightarrow>
          (let prefix = keyword tok; s1 = advance s in
           then_do (parseExpression n pr_prefix s1)
             (\<lambda>right s2. Returned (PrefixExpression prefix right) s2)))"
| "parseGroupedExpression n s =
     (let s1 = advance s in
      then_do (parseExpression n pr_lowest s1)
        (\<lambda>node s2. then_do (expect tk_r_paren s2) (\<lambda>u s3. Returned node s3)))"
  by pat_completeness auto

termination
  apply (relation "measure (\<lambda>x. case x of
      Inl (Inl (n, _)) \<Rightarrow> 2 * n | Inl (Inr (n, _)) \<Rightarrow> 2 * n
    | Inr (Inl (n, _)) \<Rightarrow> 2 * n + 1 | Inr (Inr (Inl (n, _))) \<Rightarrow> 2 * n + 1
    | Inr (Inr (Inr (n, _))) \<Rightarrow> 2 * n + 1)")
  apply auto
  done

lemmas engine_simps = parseExpression.simps parseExpression_loop.simps
  parseBinaryOperation.simps parsePrefixExpression.simps parseGroupedExpression.simps

declare engine_simps [simp del]

subsection \<open>Statements\<close>

text \<open>
  The argument of the call of \<^verbatim>\<open>parseExpression\<close> is \<^verbatim>\<open>Precedence.pr_lowestr\<close>,
  which is not a member of \<^verbatim>\<open>Precedence\<close>: evaluating it raises before the call, so
  neither the call nor the construction of the node after it is ever reached.
\<close>

definition parseVariableReassignment :: "nat \<Rightarrow> State \<Rightarrow> Node outcome" where
  "parseVariableReassignment n s =
     (case current_token s of
        None \<Rightarrow> Raised (AttributeError ''current_token'') s
      | Some tok \<Rightarrow>
          (let identifier = keyword tok; s1 = advance s; s2 = advance s1 in
           Raised (AttributeError ''pr_lowestr'') s2))"

definition parseVariableDeclaration :: "nat \<Rightarrow> State \<Rightarrow> Node outcome" where
  "parseVariableDeclaration n s =
     (case current_token s of
        None \<Rightarrow> Raised (AttributeError ''current_token'') s
      | Some varType \<Rightarrow>
          then_do (expect tk_identifier s)
            (\<lambda>u s1.
               case current_token s1 of
                 None \<Rightarrow> Raised (AttributeError ''current_token'') s1
               | Some nameTok \<Rightarrow>
                   (let name = keyword nameTok in
                    if (case nextToken s1 of None \<Rightarrow> False
                        | Some t \<Rightarrow> tk_type t \<noteq> tk_assign)
                    then Returned (VariableDeclaration varType name None) s1
                    else
                      (let s2 = advance s1; s3 = advance s2 in
                       then_do (parseExpression n pr_lowest s3)
                         (\<lambda>value s4.
                            Returned (VariableDeclaration varType name (Some value)) s4)))))"

text \<open>The bodies of these five methods are \<^verbatim>\<open>pass\<close>: they return \<^verbatim>\<open>None\<close>.\<close>

definition parseIf :: "State \<Rightarrow> Node option outcome" where
  "parseIf s = Returned None s"

definition parseWhile :: "State \<Rightarrow> Node option outcome" where
  "parseWhile s = Returned None s"

definition parseFor :: "State \<Rightarrow> Node option outcome" where
  "parseFor s = Returned None s"

definition parseMatch :: "State \<Rightarrow> Node option outcome" where
  "parseMatch s = Returned None s"

definition parseFunctionDeclaration :: "State \<Rightarrow> Node option outcome" where
  "parseFunctionDeclaration s = Returned None s"

text \<open>
  In the branch of an identifier the result of \<^verbatim>\<open>parseExpression\<close> is assigned and
  then overwritten: the call of \<^verbatim>\<open>parseVariableReassignment\<close> is not under an
  \<^verbatim>\<open>else\<close>. The condition of the eighth branch compares with
  \<^verbatim>\<open>TokenType.tk_ccode\<close>, which is not a member of \<^verbatim>\<open>TokenType\<close> (the member is
  \<^verbatim>\<open>tk_cppcode\<close>): evaluating the condition raises, so the body of that branch and the
  final \<^verbatim>\<open>else\<close>, the expression statement, are never reached.
\<close>

definition parseStatement :: "nat \<Rightarrow> State \<Rightarrow> Node option outcome" where
  "parseStatement n s =
     (case current_token s of
        None \<Rightarrow> Raised (AttributeError ''current_token'') s
      | Some tok \<Rightarrow>
          if tk_type tok = tk_identifier then
            then_do
              (case nextToken s of
                 None \<Rightarrow> Returned () s
               | Some t \<Rightarrow>
                   (if tk_type t \<noteq> tk_assign
                    then then_do (parseExpression n pr_lowest s) (\<lambda>newNode s'. Returned () s')
                    else Returned () s))
              (\<lambda>u s1.
                 then_do (parseVariableReassignment n s1)
                   (\<lambda>newNode s2. Returned (Some newNode) s2))
          else if tk_type tok \<in> set LangTypes then
            then_do (parseVariableDeclaration n s) (\<lambda>newNode s'. Returned (Some newNode) s')
          else if tk_type tok = tk_if then parseIf s
          else if tk_type tok = tk_while then parseWhile s
          else if tk_type tok = tk_for then parseFor s
          else if tk_type tok = tk_match then parseMatch s
          else if tk_type tok = tk_def then parseFunctionDeclaration s
          else Raised (AttributeError ''tk_ccode'') s)"

subsection \<open>The top-level run\<close>

text \<open>
  The \<^verbatim>\<open>while\<close> loop of \<^verbatim>\<open>parse\<close>: each round appends the statement to the list of
  the class \<^verbatim>\<open>Program\<close> and advances once.
\<close>

fun parse_loop :: "nat \<Rightarrow> State \<Rightarrow> unit outcome" where
  "parse_loop 0 s = OutOfFuel"
| "parse_loop (Suc n) s =
     (if tk_index s < length (tokens s) then
        then_do (parseStatement n s)
          (\<lambda>node s1. parse_loop n (advance (s1\<lparr>Program_nodes := Program_nodes s1 @ [node]\<rparr>)))
      else Returned () s)"

text \<open>
  After the loop the diagnostics of the class are displayed and the process exits with
  status 1, or, when there is none, the \<^verbatim>\<open>Program\<close> instance is returned.
\<close>

definition parse :: "nat \<Rightarrow> State \<Rightarrow> Node outcome" where
  "parse n s =
     then_do (parse_loop n s)
       (\<lambda>u s1.
          if length (Parser_errors s1) \<noteq> 0
          then Raised (SystemExit 1) (s1\<lparr>stdout := stdout s1 @ map Displayed (Parser_errors s1)\<rparr>)
          else Returned Program s1)"

text \<open>
  A token as the dataclass builds it from a lexeme and a tag, the other fields at their
  defaults, and the state of a process that has not created a parser yet.
\<close>

definition mk_Token :: "string \<Rightarrow> int \<Rightarrow> Token" where
  "mk_Token k t = \<lparr>keyword = k, index = 0, line = 1, tk_type = t, tab = 0\<rparr>"

definition fresh :: State where
  "fresh = \<lparr>tk_index = 0, filename = [], tokens = [], current_token = None,
             Parser_errors = [], Program_nodes = [], stdout = [], files = []\<rparr>"

subsection \<open>Reading outcomes\<close>

text \<open>The value a call returned, if it returned.\<close>

fun returned :: "'a outcome \<Rightarrow> 'a option" where
  "returned (Returned x s) = Some x"
| "returned (Raised e s) = None"
| "returned OutOfFuel = None"

text \<open>
  \<open>fuel_le a b\<close>: the outcome \<open>b\<close>, computed with more fuel, is the outcome \<open>a\<close>
  unless \<open>a\<close> ran out of fuel.
\<close>

definition fuel_le :: "'a outcome \<Rightarrow> 'a outcome \<Rightarrow> bool" where
  "fuel_le a b \<longleftrightarrow> a = OutOfFuel \<or> b = a"

text \<open>The exception a call raised, and the state a call ended in.\<close>

fun raised :: "'a outcome \<Rightarrow> error option" where
  "raised (Returned x s) = None"
| "raised (Raised e s) = Some e"
| "raised OutOfFuel = None"

fun final :: "'a outcome \<Rightarrow> State option" where
  "final (Returned x s) = Some s"
| "final (Raised e s) = Some s"
| "final OutOfFuel = None"

subsection \<open>Invariants of the cursor\<close>

text \<open>
  \<open>cursor_moves s s'\<close>: from \<open>s\<close> to \<open>s'\<close> the token list is the same, the index has not
  decreased, and it has not passed the length of the list unless it was beyond it already.
  \<open>evolves\<close> adds that the two lists of the classes are unchanged. \<open>keeps R s a\<close>: the
  state in which the outcome \<open>a\<close> ends, by return or by exception, is related to \<open>s\<close>.
  \<open>cursor_ok\<close> is the invariant as it reads for a cursor that starts within bounds.
\<close>

definition cursor_moves :: "State \<Rightarrow> State \<Rightarrow> bool" where
  "cursor_moves s s' \<longleftrightarrow>
     tokens s' = tokens s \<and> tk_index s \<le> tk_index s' \<and>
     tk_index s' \<le> max (tk_index s) (length (tokens s))"

definition evolves :: "State \<Rightarrow> State \<Rightarrow> bool" where
  "evolves s s' \<longleftrightarrow>
     cursor_moves s s' \<and> Parser_errors s' = Parser_errors s \<and>
     Program_nodes s' = Program_nodes s"

fun keeps :: "(State \<Rightarrow> State \<Rightarrow> bool) \<Rightarrow> State \<Rightarrow> 'a outcome \<Rightarrow> bool" where
  "keeps R s (Returned x s') = R s s'"
| "keeps R s (Raised e s') = R s s'"
| "keeps R s OutOfFuel = True"

definition cursor_ok :: "State \<Rightarrow> State \<Rightarrow> bool" where
  "cursor_ok s s' \<longleftrightarrow>
     tokens s' = tokens s \<and> tk_index s \<le> tk_index s' \<and> tk_index s' \<le> length (tokens s')"

text \<open>
  The values that the successive calls of \<^verbatim>\<open>parseStatement\<close> in the loop of
  \<^verbatim>\<open>parse\<close> return, in the order of the calls.
\<close>

fun statements :: "nat \<Rightarrow> State \<Rightarrow> Node option list" where
  "statements 0 s = []"
| "statements (Suc n) s =
     (if tk_index s < length (tokens s) then
        (case parseStatement n s of
           Returned node s1 \<Rightarrow>
             node # statements n (advance (s1\<lparr>Program_nodes := Program_nodes s1 @ [node]\<rparr>))
         | Raised e s1 \<Rightarrow> []
         | OutOfFuel \<Rightarrow> [])
      else [])"


section \<open>Fuel\<close>

text \<open>
  An outcome other than \<open>OutOfFuel\<close> does not depend on the fuel: more fuel gives the
  same outcome. The proof follows the structure of the definitions with one rule for each
  construct.
\<close>

lemmas cursor_defs = Parser_init_def advance_def nextToken_def nextPrecedence_def expect_def

lemmas eval_defs = cursor_defs mk_Token_def precedenceMap_def LangTypes_def TokenType Precedence
  parseInteger_def parseString_def parseBool_def parseIdentifier_def eval_nat_numeral
  engine_simps

lemma fuel_le_refl: "fuel_le a a"
  by (simp add: fuel_le_def)

lemma fuel_le_then_do:
  "fuel_le a a' \<Longrightarrow> (\<And>x s. fuel_le (f x s) (f' x s)) \<Longrightarrow>
   fuel_le (then_do a f) (then_do a' f')"
  by (cases a) (auto simp: fuel_le_def)

lemma fuel_le_if:
  "(c \<Longrightarrow> fuel_le a a') \<Longrightarrow> (\<not> c \<Longrightarrow> fuel_le b b') \<Longrightarrow>
   fuel_le (if c then a else b) (if c then a' else b')"
  by simp

lemma fuel_le_option:
  "(x = None \<Longrightarrow> fuel_le a a') \<Longrightarrow> (\<And>y. x = Some y \<Longrightarrow> fuel_le (f y) (f' y)) \<Longrightarrow>
   fuel_le (case x of None \<Rightarrow> a | Some y \<Rightarrow> f y) (case x of None \<Rightarrow> a' | Some y \<Rightarrow> f' y)"
  by (cases x) simp_all

lemma helpers_more_fuel:
  assumes pe: "\<And>p s. fuel_le (parseExpression n p s) (parseExpression (Suc n) p s)"
  shows "fuel_le (parseBinaryOperation n l s) (parseBinaryOperation (Suc n) l s)"
    and "fuel_le (parsePrefixExpression n s) (parsePrefixExpression (Suc n) s)"
    and "fuel_le (parseGroupedExpression n s) (parseGroupedExpression (Suc n) s)"
proof -
  show "fuel_le (parseBinaryOperation n l s) (parseBinaryOperation (Suc n) l s)"
    unfolding parseBinaryOperation.simps [of n] parseBinaryOperation.simps [of "Suc n"] Let_def
    by (intro fuel_le_option fuel_le_then_do fuel_le_refl pe)
  show "fuel_le (parsePrefixExpression n s) (parsePrefixExpression (Suc n) s)"
    unfolding parsePrefixExpression.simps [of n] parsePrefixExpression.simps [of "Suc n"] Let_def
    by (intro fuel_le_option fuel_le_then_do fuel_le_refl pe)
  show "fuel_le (parseGroupedExpression n s) (parseGroupedExpression (Suc n) s)"
    unfolding parseGroupedExpression.simps [of n] parseGroupedExpression.simps [of "Suc n"]
      Let_def
    by (intro fuel_le_option fuel_le_then_do fuel_le_refl pe)
qed

lemma more_fuel_step:
  "(\<forall>p s. fuel_le (parseExpression n p s) (parseExpression (Suc n) p s)) \<and>
   (\<forall>p l s. fuel_le (parseExpression_loop n p l s) (parseExpression_loop (Suc n) p l s))"
proof (induction n)
  case 0
  show ?case by (simp add: fuel_le_def parseExpression.simps(1) parseExpression_loop.simps(1))
next
  case (Suc n)
  from Suc have pe: "\<And>p s. fuel_le (parseExpression n p s) (parseExpression (Suc n) p s)"
    and lp: "\<And>p l s. fuel_le (parseExpression_loop n p l s)
               (parseExpression_loop (Suc n) p l s)"
    by blast+
  note hs = helpers_more_fuel [OF pe]
  have A: "fuel_le (parseExpression (Suc n) p s) (parseExpression (Suc (Suc n)) p s)" for p s
    unfolding parseExpression.simps(2) [of "Suc n" p s] parseExpression.simps(2) [of n p s]
    by (intro fuel_le_option fuel_le_if fuel_le_then_do lp hs fuel_le_refl)
  have B: "fuel_le (parseExpression_loop (Suc n) p l s)
             (parseExpression_loop (Suc (Suc n)) p l s)" for p l s
    unfolding parseExpression_loop.simps(2) [of "Suc n" p l s]
      parseExpression_loop.simps(2) [of n p l s] Let_def
    by (intro fuel_le_option fuel_le_if fuel_le_then_do lp hs fuel_le_refl)
  from A B show ?case by blast
qed

lemma parseExpression_more_fuel:
  "parseExpression n p s \<noteq> OutOfFuel \<Longrightarrow>
   parseExpression (n + k) p s = parseExpression n p s"
proof (induction k)
  case 0
  then show ?case by simp
next
  case (Suc k)
  from Suc have ne: "parseExpression (n + k) p s \<noteq> OutOfFuel" by simp
  from more_fuel_step [of "n + k"]
  have "fuel_le (parseExpression (n + k) p s) (parseExpression (Suc (n + k)) p s)" by blast
  with ne have "parseExpression (Suc (n + k)) p s = parseExpression (n + k) p s"
    unfolding fuel_le_def by blast
  with Suc show ?case by simp
qed

lemma returned_more_fuel:
  assumes "returned (parseExpression n p s) = Some e"
  shows "returned (parseExpression (n + k) p s) = Some e"
proof -
  from assms have "parseExpression n p s \<noteq> OutOfFuel" by auto
  then have "parseExpression (n + k) p s = parseExpression n p s"
    by (rule parseExpression_more_fuel)
  with assms show ?thesis by simp
qed

lemma raised_more_fuel:
  assumes "raised (parseExpression n p s) = Some e"
  shows "raised (parseExpression (n + k) p s) = Some e"
proof -
  from assms have "parseExpression n p s \<noteq> OutOfFuel" by auto
  then have "parseExpression (n + k) p s = parseExpression n p s"
    by (rule parseExpression_more_fuel)
  with assms show ?thesis by simp
qed

lemma returned_None_more_fuel:
  assumes "raised (parseExpression n p s) = Some e"
  shows "returned (parseExpression m p s) = None"
proof (cases "m \<le> n")
  case True
  show ?thesis
  proof (cases "parseExpression m p s = OutOfFuel")
    case True
    then show ?thesis by simp
  next
    case False
    from True obtain k where n: "n = m + k" by (auto simp: le_iff_add)
    from parseExpression_more_fuel [OF False, of k] assms n
    have "raised (parseExpression m p s) = Some e" by simp
    then show ?thesis by (cases "parseExpression m p s") simp_all
  qed
next
  case False
  then have "n \<le> m" by simp
  then obtain k where m: "m = n + k" by (auto simp: le_iff_add)
  from raised_more_fuel [OF assms, of k] m show ?thesis
    by (cases "parseExpression m p s") simp_all
qed

section \<open>The expression engine\<close>

text \<open>
  The tokenizer's vocabulary has two families of tags that concern literals: the
  primitive-type keywords \<open>tk_int\<close>, \<open>tk_str\<close>, \<open>tk_bool\<close> (members of \<open>LangTypes\<close>,
  the tags that start a declaration) and the literal-value tags \<open>integer\<close>, \<open>string\<close>,
  \<open>tk_true\<close>, \<open>tk_false\<close>. The branches of \<^verbatim>\<open>parseExpression\<close> test the first
  family. On tokens tagged that way the climbing loop builds the trees that the precedence
  table asks for:
\<close>

lemma sum_before_product:
  "returned (parseExpression 6 pr_lowest (Parser_init fname
      [mk_Token ''1'' tk_int, mk_Token ''+'' tk_plus, mk_Token ''2'' tk_int,
       mk_Token ''*'' tk_asterisk, mk_Token ''3'' tk_int] s0)) =
   Some (BinaryOperation (IntegerLiteral ''1'') ''+''
     (BinaryOperation (IntegerLiteral ''2'') ''*'' (IntegerLiteral ''3'')))"
  by (simp add: eval_defs)

lemma product_before_sum:
  "returned (parseExpression 6 pr_lowest (Parser_init fname
      [mk_Token ''1'' tk_int, mk_Token ''*'' tk_asterisk, mk_Token ''2'' tk_int,
       mk_Token ''+'' tk_plus, mk_Token ''3'' tk_int] s0)) =
   Some (BinaryOperation (BinaryOperation (IntegerLiteral ''1'') ''*'' (IntegerLiteral ''2''))
     ''+'' (IntegerLiteral ''3''))"
  by (simp add: eval_defs)

lemma difference_groups_left:
  "returned (parseExpression 5 pr_lowest (Parser_init fname
      [mk_Token ''1'' tk_int, mk_Token ''-'' tk_minus, mk_Token ''2'' tk_int,
       mk_Token ''-'' tk_minus, mk_Token ''3'' tk_int] s0)) =
   Some (BinaryOperation (BinaryOperation (IntegerLiteral ''1'') ''-'' (IntegerLiteral ''2''))
     ''-'' (IntegerLiteral ''3''))"
  by (simp add: eval_defs)

text \<open>
  An integer literal, however, carries the tag \<open>integer\<close>. No branch of
  \<^verbatim>\<open>parseExpression\<close> tests it, so the final \<^verbatim>\<open>else\<close> prints and leaves the local
  variable \<^verbatim>\<open>left\<close> unbound, and its first use raises.
\<close>

lemma literal_sum_product_raises:
  "raised (parseExpression 2 pr_lowest (Parser_init fname
      [mk_Token ''1'' integer, mk_Token ''+'' tk_plus, mk_Token ''2'' integer,
       mk_Token ''*'' tk_asterisk, mk_Token ''3'' integer] s0)) =
   Some (UnboundLocalError ''left'')"
  by (simp add: eval_defs Let_def)

lemma literal_product_sum_raises:
  "raised (parseExpression 2 pr_lowest (Parser_init fname
      [mk_Token ''1'' integer, mk_Token ''*'' tk_asterisk, mk_Token ''2'' integer,
       mk_Token ''+'' tk_plus, mk_Token ''3'' integer] s0)) =
   Some (UnboundLocalError ''left'')"
  by (simp add: eval_defs Let_def)

text \<open>
  C1 (precedence law). The code does not do what the claim says. On the tokens of
  \<^verbatim>\<open>1 + 2 * 3\<close>, and on those of \<^verbatim>\<open>1 * 2 + 3\<close>, with the literals tagged
  \<open>integer\<close>, \<^verbatim>\<open>parseExpression\<close> at the lowest precedence raises
  \<^verbatim>\<open>UnboundLocalError\<close> with any fuel of at least 2, and returns no tree with any fuel.
\<close>

theorem precedence_law_fails_on_literals:
  "raised (parseExpression (2 + k) pr_lowest (Parser_init fname
      [mk_Token ''1'' integer, mk_Token ''+'' tk_plus, mk_Token ''2'' integer,
       mk_Token ''*'' tk_asterisk, mk_Token ''3'' integer] s0)) =
     Some (UnboundLocalError ''left'') \<and>
   returned (parseExpression n pr_lowest (Parser_init fname
      [mk_Token ''1'' integer, mk_Token ''+'' tk_plus, mk_Token ''2'' integer,
       mk_Token ''*'' tk_asterisk, mk_Token ''3'' integer] s0)) = None \<and>
   raised (parseExpression (2 + k) pr_lowest (Parser_init fname
      [mk_Token ''1'' integer, mk_Token ''*'' tk_asterisk, mk_Token ''2'' integer,
       mk_Token ''+'' tk_plus, mk_Token ''3'' integer] s0)) =
     Some (UnboundLocalError ''left'') \<and>
   returned (parseExpression n pr_lowest (Parser_init fname
      [mk_Token ''1'' integer, mk_Token ''*'' tk_asterisk, mk_Token ''2'' integer,
       mk_Token ''+'' tk_plus, mk_Token ''3'' integer] s0)) = None"
  by (intro conjI raised_more_fuel [OF literal_sum_product_raises]
      raised_more_fuel [OF literal_product_sum_raises]
      returned_None_more_fuel [OF literal_sum_product_raises]
      returned_None_more_fuel [OF literal_product_sum_raises])

text \<open>
  Through \<^verbatim>\<open>parse\<close> the engine is not even reached: a statement that starts with a
  literal falls to the eighth test of \<^verbatim>\<open>parseStatement\<close>, which raises.
\<close>

lemma literal_statement_raises:
  "raised (parseStatement n (Parser_init fname (mk_Token k integer # ts) s0)) =
   Some (AttributeError ''tk_ccode'')"
  by (simp add: parseStatement_def cursor_defs mk_Token_def LangTypes_def TokenType)

lemma literal_difference_raises:
  "raised (parseExpression 2 pr_lowest (Parser_init fname
      [mk_Token ''1'' integer, mk_Token ''-'' tk_minus, mk_Token ''2'' integer,
       mk_Token ''-'' tk_minus, mk_Token ''3'' integer] s0)) =
   Some (UnboundLocalError ''left'')"
  by (simp add: eval_defs Let_def)

text \<open>
  C2 (left associativity). The code does not do what the claim says. On the tokens of
  \<^verbatim>\<open>1 - 2 - 3\<close>, with the literals tagged \<open>integer\<close>, \<^verbatim>\<open>parseExpression\<close> at the
  lowest precedence raises \<^verbatim>\<open>UnboundLocalError\<close> with any fuel of at least 2, and
  returns no tree with any fuel.
\<close>

theorem left_associativity_fails_on_literals:
  "raised (parseExpression (2 + k) pr_lowest (Parser_init fname
      [mk_Token ''1'' integer, mk_Token ''-'' tk_minus, mk_Token ''2'' integer,
       mk_Token ''-'' tk_minus, mk_Token ''3'' integer] s0)) =
     Some (UnboundLocalError ''left'') \<and>
   returned (parseExpression n pr_lowest (Parser_init fname
      [mk_Token ''1'' integer, mk_Token ''-'' tk_minus, mk_Token ''2'' integer,
       mk_Token ''-'' tk_minus, mk_Token ''3'' integer] s0)) = None"
  by (intro conjI raised_more_fuel [OF literal_difference_raises]
      returned_None_more_fuel [OF literal_difference_raises])

section \<open>Statements\<close>

lemmas stmt_defs = parseStatement_def parseVariableReassignment_def parseVariableDeclaration_def
  parseIf_def parseWhile_def parseFor_def parseMatch_def parseFunctionDeclaration_def

lemma returned_then_do_None:
  "(\<And>x s. returned (f x s) = None) \<Longrightarrow> returned (then_do a f) = None"
  by (cases a) simp_all

lemma returned_then_do_None_left:
  "returned a = None \<Longrightarrow> returned (then_do a f) = None"
  by (cases a) simp_all

lemma parseVariableReassignment_never_returns:
  "returned (parseVariableReassignment n s) = None"
  by (simp add: parseVariableReassignment_def Let_def split: option.splits)

lemma identifier_statement_never_returns:
  "current_token s = Some tok \<Longrightarrow> tk_type tok = tk_identifier \<Longrightarrow>
   returned (parseStatement n s) = None"
  unfolding parseStatement_def
  apply simp
  apply (rule returned_then_do_None)
  apply (rule returned_then_do_None_left)
  apply (rule parseVariableReassignment_never_returns)
  done

lemma x_plus_y_expression:
  "returned (parseExpression 4 pr_lowest (Parser_init fname
     [mk_Token ''x'' tk_identifier, mk_Token ''+'' tk_plus, mk_Token ''y'' tk_identifier] s0)) =
   Some (BinaryOperation (Identifier ''x'') ''+'' (Identifier ''y''))"
  by (simp add: eval_defs Let_def)

text \<open>
  C3 (statement dispatch on identifiers). The code does not do what the claim says. On the
  statement \<^verbatim>\<open>x + y\<close>, an identifier not followed by an assignment operator,
  \<^verbatim>\<open>parseStatement\<close> returns nothing, whatever the fuel: it parses the expression,
  drops the result and goes on into \<^verbatim>\<open>parseVariableReassignment\<close>, which raises
  \<^verbatim>\<open>AttributeError\<close>; \<^verbatim>\<open>parseExpression\<close> on the same tokens returns the tree
  of \<^verbatim>\<open>(x + y)\<close>.
\<close>

theorem identifier_statement_falls_through:
  "returned (parseStatement n (Parser_init fname
     [mk_Token ''x'' tk_identifier, mk_Token ''+'' tk_plus, mk_Token ''y'' tk_identifier] s0)) = None \<and>
   raised (parseStatement 4 (Parser_init fname
     [mk_Token ''x'' tk_identifier, mk_Token ''+'' tk_plus, mk_Token ''y'' tk_identifier] s0)) =
     Some (AttributeError ''pr_lowestr'') \<and>
   returned (parseExpression (4 + k) pr_lowest (Parser_init fname
     [mk_Token ''x'' tk_identifier, mk_Token ''+'' tk_plus, mk_Token ''y'' tk_identifier] s0)) =
     Some (BinaryOperation (Identifier ''x'') ''+'' (Identifier ''y''))"
proof (intro conjI)
  show "returned (parseStatement n (Parser_init fname
     [mk_Token ''x'' tk_identifier, mk_Token ''+'' tk_plus, mk_Token ''y'' tk_identifier] s0)) = None"
    by (rule identifier_statement_never_returns [where tok = "mk_Token ''x'' tk_identifier"])
      (simp_all add: cursor_defs mk_Token_def)
  show "raised (parseStatement 4 (Parser_init fname
     [mk_Token ''x'' tk_identifier, mk_Token ''+'' tk_plus, mk_Token ''y'' tk_identifier] s0)) =
     Some (AttributeError ''pr_lowestr'')"
    by (simp add: stmt_defs eval_defs Let_def)
  show "returned (parseExpression (4 + k) pr_lowest (Parser_init fname
     [mk_Token ''x'' tk_identifier, mk_Token ''+'' tk_plus, mk_Token ''y'' tk_identifier] s0)) =
     Some (BinaryOperation (Identifier ''x'') ''+'' (Identifier ''y''))"
    by (rule returned_more_fuel [OF x_plus_y_expression])
qed

text \<open>
  C4 (reassignment scenario). The code does not do what the claim says: on the tokens of
  \<^verbatim>\<open>x = 5 + 1\<close> both \<^verbatim>\<open>parseStatement\<close> and
  \<^verbatim>\<open>parseVariableReassignment\<close> raise \<^verbatim>\<open>AttributeError\<close> for the name
  \<^verbatim>\<open>pr_lowestr\<close>, whatever the fuel, and no node is built.
\<close>

theorem reassignment_raises:
  "raised (parseStatement n (Parser_init fname
     [mk_Token ''x'' tk_identifier, mk_Token ''='' tk_assign, mk_Token ''5'' integer,
      mk_Token ''+'' tk_plus, mk_Token ''1'' integer] s0)) =
     Some (AttributeError ''pr_lowestr'') \<and>
   raised (parseVariableReassignment n (Parser_init fname
     [mk_Token ''x'' tk_identifier, mk_Token ''='' tk_assign, mk_Token ''5'' integer,
      mk_Token ''+'' tk_plus, mk_Token ''1'' integer] s0)) =
     Some (AttributeError ''pr_lowestr'')"
  by (simp add: stmt_defs cursor_defs mk_Token_def TokenType Let_def)

text \<open>
  C5 (uninitialized declaration). The code does not do what the claim says when the name is
  the last token: on the tokens of \<^verbatim>\<open>int x\<close> the guard of the uninitialized case is
  false, because there is no next token, and \<^verbatim>\<open>parseVariableDeclaration\<close> returns a
  declaration whose initializer is the identifier \<^verbatim>\<open>x\<close> itself.
\<close>

theorem declaration_at_end_of_stream:
  "returned (parseVariableDeclaration (2 + k) (Parser_init fname
     [mk_Token ''int'' tk_int, mk_Token ''x'' tk_identifier] s0)) =
   Some (VariableDeclaration (mk_Token ''int'' tk_int) ''x'' (Some (Identifier ''x'')))"
  by (simp add: stmt_defs eval_defs Let_def)

text \<open>
  C6 (\<^verbatim>\<open>expect\<close> on a mismatch). The code does not do what the claim says: on the tokens
  of \<^verbatim>\<open>int 5 ,\<close> the call \<^verbatim>\<open>expect(tk_identifier)\<close> finds the literal
  \<^verbatim>\<open>5\<close>, advances onto it and returns; no diagnostic is recorded and nothing is
  printed. The whole run then returns a \<^verbatim>\<open>Program\<close> holding a declaration of the name
  \<^verbatim>\<open>5\<close>, with an empty list of diagnostics.
\<close>

theorem expect_mismatch_is_silent:
  "expect tk_identifier (Parser_init fname
     [mk_Token ''int'' tk_int, mk_Token ''5'' integer, mk_Token '','' tk_comma] s0) =
     Returned () (advance (Parser_init fname
       [mk_Token ''int'' tk_int, mk_Token ''5'' integer, mk_Token '','' tk_comma] s0)) \<and>
   Parser_errors (advance (Parser_init fname
     [mk_Token ''int'' tk_int, mk_Token ''5'' integer, mk_Token '','' tk_comma] s0)) =
     Parser_errors s0 \<and>
   stdout (advance (Parser_init fname
     [mk_Token ''int'' tk_int, mk_Token ''5'' integer, mk_Token '','' tk_comma] s0)) = stdout s0 \<and>
   returned (parse 3 (Parser_init fname
     [mk_Token ''int'' tk_int, mk_Token ''5'' integer, mk_Token '','' tk_comma] fresh)) =
     Some Program \<and>
   map_option Program_nodes (final (parse 3 (Parser_init fname
     [mk_Token ''int'' tk_int, mk_Token ''5'' integer, mk_Token '','' tk_comma] fresh))) =
     Some [Some (VariableDeclaration (mk_Token ''int'' tk_int) ''5'' None)] \<and>
   map_option Parser_errors (final (parse 3 (Parser_init fname
     [mk_Token ''int'' tk_int, mk_Token ''5'' integer, mk_Token '','' tk_comma] fresh))) = Some []"
  by (simp add: parse_def stmt_defs eval_defs fresh_def Let_def)

section \<open>Termination and independence of runs\<close>

text \<open>
  At the end of the stream \<^verbatim>\<open>advance\<close> changes nothing, so a parenthesis or a prefix
  minus that is the last token is parsed again and again: each call of
  \<^verbatim>\<open>parseExpression\<close> calls itself on the same state. In the model no fuel is
  enough; the interpreter ends the recursion only when its own limit on the depth of the
  stack is reached.
\<close>

lemma advance_at_end: "length (tokens s) \<le> tk_index s \<Longrightarrow> advance s = s"
  by (simp add: advance_def)

lemma open_paren_at_end:
  assumes "current_token s = Some t" and "tk_type t = tk_l_paren"
    and "length (tokens s) \<le> tk_index s"
  shows "parseExpression n p s = OutOfFuel"
proof (induction n arbitrary: p)
  case 0
  show ?case by (simp add: parseExpression.simps(1))
next
  case (Suc n)
  have "parseGroupedExpression n s = OutOfFuel"
    unfolding parseGroupedExpression.simps [of n s]
    by (simp add: advance_at_end [OF assms(3)] Suc)
  then show ?case
    unfolding parseExpression.simps(2) [of n p s]
    by (simp add: assms(1,2) TokenType)
qed

lemma minus_at_end:
  assumes "current_token s = Some t" and "tk_type t = tk_minus"
    and "length (tokens s) \<le> tk_index s"
  shows "parseExpression n p s = OutOfFuel"
proof (induction n arbitrary: p)
  case 0
  show ?case by (simp add: parseExpression.simps(1))
next
  case (Suc n)
  have "parsePrefixExpression n s = OutOfFuel"
    unfolding parsePrefixExpression.simps [of n s]
    by (simp add: assms(1) advance_at_end [OF assms(3)] Suc)
  then show ?case
    unfolding parseExpression.simps(2) [of n p s]
    by (simp add: assms(1,2) TokenType)
qed

lemma declaration_with_initializer:
  "parse n (Parser_init fname
      [mk_Token ''int'' tk_int, mk_Token ''x'' tk_identifier, mk_Token ''='' tk_assign, t] s0) =
   (case n of 0 \<Rightarrow> OutOfFuel
    | Suc m \<Rightarrow>
        then_do (then_do (then_do (then_do
          (parseExpression m pr_lowest
             (advance (advance (advance (Parser_init fname
               [mk_Token ''int'' tk_int, mk_Token ''x'' tk_identifier, mk_Token ''='' tk_assign, t]
               s0)))))
          (\<lambda>value s4. Returned (VariableDeclaration (mk_Token ''int'' tk_int) ''x'' (Some value)) s4))
          (\<lambda>newNode s'. Returned (Some newNode) s'))
          (\<lambda>node s1. parse_loop m (advance (s1\<lparr>Program_nodes := Program_nodes s1 @ [node]\<rparr>))))
          (\<lambda>u s1.
             if length (Parser_errors s1) \<noteq> 0
             then Raised (SystemExit 1)
                    (s1\<lparr>stdout := stdout s1 @ map Displayed (Parser_errors s1)\<rparr>)
             else Returned Program s1))"
  by (cases n)
    (simp_all add: parse_def parseStatement_def parseVariableDeclaration_def cursor_defs
      mk_Token_def LangTypes_def TokenType Let_def)

text \<open>
  C8 (termination). The code does not do what the claim says: on the tokens of
  \<^verbatim>\<open>int x = (\<close>, and on those of \<^verbatim>\<open>int x = -\<close>, the run \<^verbatim>\<open>parse\<close> does not
  come back, whatever the fuel.
\<close>

theorem unterminated_expression_diverges:
  "parse n (Parser_init fname
     [mk_Token ''int'' tk_int, mk_Token ''x'' tk_identifier, mk_Token ''='' tk_assign,
      mk_Token ''('' tk_l_paren] s0) = OutOfFuel \<and>
   parse n (Parser_init fname
     [mk_Token ''int'' tk_int, mk_Token ''x'' tk_identifier, mk_Token ''='' tk_assign,
      mk_Token ''-'' tk_minus] s0) = OutOfFuel"
proof -
  let ?e = "\<lambda>t. advance (advance (advance (Parser_init fname
     [mk_Token ''int'' tk_int, mk_Token ''x'' tk_identifier, mk_Token ''='' tk_assign, t] s0)))"
  have e: "current_token (?e t) = Some t" "length (tokens (?e t)) \<le> tk_index (?e t)" for t
    by (simp_all add: cursor_defs)
  have "parseExpression m pr_lowest (?e (mk_Token ''('' tk_l_paren)) = OutOfFuel" for m
    by (rule open_paren_at_end [OF e(1) _ e(2)]) (simp add: mk_Token_def)
  moreover have "parseExpression m pr_lowest (?e (mk_Token ''-'' tk_minus)) = OutOfFuel" for m
    by (rule minus_at_end [OF e(1) _ e(2)]) (simp add: mk_Token_def)
  ultimately show ?thesis
    unfolding declaration_with_initializer by (simp split: nat.splits)
qed

text \<open>
  C9 (independence of runs). The code does not do what the claim says: the run on the tokens
  of \<^verbatim>\<open>int y = b\<close> leaves one statement in the list of its \<^verbatim>\<open>Program\<close> when it is
  the first run of the process, and two, the first of them the statement of the earlier run,
  when a run on the tokens of \<^verbatim>\<open>int x = a\<close> with a parser of its own came before.
\<close>

theorem runs_share_class_lists:
  "map_option Program_nodes (final (parse 4 (Parser_init ''b''
      [mk_Token ''int'' tk_int, mk_Token ''y'' tk_identifier, mk_Token ''='' tk_assign,
       mk_Token ''b'' tk_identifier] fresh))) =
     Some [Some (VariableDeclaration (mk_Token ''int'' tk_int) ''y'' (Some (Identifier ''b'')))] \<and>
   map_option Program_nodes (Option.bind (final (parse 4 (Parser_init ''a''
      [mk_Token ''int'' tk_int, mk_Token ''x'' tk_identifier, mk_Token ''='' tk_assign,
       mk_Token ''a'' tk_identifier] fresh)))
     (\<lambda>s. final (parse 4 (Parser_init ''b''
      [mk_Token ''int'' tk_int, mk_Token ''y'' tk_identifier, mk_Token ''='' tk_assign,
       mk_Token ''b'' tk_identifier] s)))) =
     Some [Some (VariableDeclaration (mk_Token ''int'' tk_int) ''x'' (Some (Identifier ''a''))),
           Some (VariableDeclaration (mk_Token ''int'' tk_int) ''y'' (Some (Identifier ''b'')))]"
  by (simp add: parse_def stmt_defs eval_defs fresh_def Let_def)

section \<open>The cursor and the lists of the classes\<close>

text \<open>
  Every method of the parser below \<^verbatim>\<open>parse\<close> moves the cursor forward only, within
  the token list, and touches neither \<^verbatim>\<open>Parser.errors\<close> nor \<^verbatim>\<open>Program.nodes\<close>.
  The proof has one rule for each construct of the definitions, as for the fuel.
\<close>

lemma evolves_refl: "evolves s s"
  by (simp add: evolves_def cursor_moves_def)

lemma evolves_trans: "evolves s s1 \<Longrightarrow> evolves s1 s2 \<Longrightarrow> evolves s s2"
  by (auto simp: evolves_def cursor_moves_def)

lemma evolves_advance: "evolves s (advance s)"
  by (simp add: evolves_def cursor_moves_def advance_def)

lemma evolves_advance2: "evolves s (advance (advance s))"
  by (rule evolves_trans [OF evolves_advance evolves_advance])

lemma evolves_stdout: "evolves s (s\<lparr>stdout := x\<rparr>)"
  by (simp add: evolves_def cursor_moves_def)

lemma keeps_trans: "evolves s s1 \<Longrightarrow> keeps evolves s1 a \<Longrightarrow> keeps evolves s a"
  by (cases a) (auto intro: evolves_trans)

lemma keeps_then_do:
  "keeps evolves s a \<Longrightarrow> (\<And>x s1. keeps evolves s1 (f x s1)) \<Longrightarrow>
   keeps evolves s (then_do a f)"
  by (cases a) (auto intro: keeps_trans)

lemma keeps_if:
  "(c \<Longrightarrow> keeps R s a) \<Longrightarrow> (\<not> c \<Longrightarrow> keeps R s b) \<Longrightarrow> keeps R s (if c then a else b)"
  by simp

lemma keeps_option:
  "(x = None \<Longrightarrow> keeps R s a) \<Longrightarrow> (\<And>y. x = Some y \<Longrightarrow> keeps R s (f y)) \<Longrightarrow>
   keeps R s (case x of None \<Rightarrow> a | Some y \<Rightarrow> f y)"
  by (cases x) simp_all

lemma keeps_same:
  "keeps evolves s (Returned x s)" "keeps evolves s (Raised e s)"
  "keeps evolves s (Raised e (advance s))" "keeps evolves s (Raised e (advance (advance s)))"
  by (simp_all add: evolves_refl evolves_advance evolves_advance2)

lemma keeps_expect: "keeps evolves s (expect t s)"
  by (simp add: expect_def evolves_refl evolves_advance split: option.splits)

lemmas keeps_intros = keeps_option keeps_if keeps_then_do keeps_same keeps_expect

lemma helpers_keep:
  assumes pe: "\<And>p s. keeps evolves s (parseExpression n p s)"
  shows "keeps evolves s (parseBinaryOperation n l s)"
    and "keeps evolves s (parsePrefixExpression n s)"
    and "keeps evolves s (parseGroupedExpression n s)"
proof -
  have pe_adv: "keeps evolves s (parseExpression n p (advance s))" for p s
    by (rule keeps_trans [OF evolves_advance pe])
  show "keeps evolves s (parseBinaryOperation n l s)"
    unfolding parseBinaryOperation.simps [of n l s] Let_def
    by (intro keeps_intros pe_adv)
  show "keeps evolves s (parsePrefixExpression n s)"
    unfolding parsePrefixExpression.simps [of n s] Let_def
    by (intro keeps_intros pe_adv)
  show "keeps evolves s (parseGroupedExpression n s)"
    unfolding parseGroupedExpression.simps [of n s] Let_def
    by (intro keeps_intros pe_adv)
qed

lemma engine_keeps:
  "(\<forall>p s. keeps evolves s (parseExpression n p s)) \<and>
   (\<forall>p l s. keeps evolves s (parseExpression_loop n p l s))"
proof (induction n)
  case 0
  show ?case by (simp add: parseExpression.simps(1) parseExpression_loop.simps(1))
next
  case (Suc n)
  from Suc have pe: "\<And>p s. keeps evolves s (parseExpression n p s)"
    and lp: "\<And>p l s. keeps evolves s (parseExpression_loop n p l s)"
    by blast+
  note hs = helpers_keep [OF pe]
  have lp_out: "keeps evolves s (parseExpression_loop n p l (s\<lparr>stdout := x\<rparr>))" for p l s x
    by (rule keeps_trans [OF evolves_stdout lp])
  have bin_adv: "keeps evolves s (parseBinaryOperation n l (advance s))" for l s
    by (rule keeps_trans [OF evolves_advance hs(1)])
  have A: "keeps evolves s (parseExpression (Suc n) p s)" for p s
    unfolding parseExpression.simps(2) [of n p s]
    by (intro keeps_intros lp lp_out hs)
  have B: "keeps evolves s (parseExpression_loop (Suc n) p l s)" for p l s
    unfolding parseExpression_loop.simps(2) [of n p l s] Let_def
    by (intro keeps_intros lp bin_adv)
  from A B show ?case by blast
qed

lemma parseExpression_keeps: "keeps evolves s (parseExpression n p s)"
  using engine_keeps [of n] by blast

lemma parseExpression_loop_keeps: "keeps evolves s (parseExpression_loop n p l s)"
  using engine_keeps [of n] by blast

lemmas helper_keeps = helpers_keep [OF parseExpression_keeps]

lemma parseVariableReassignment_keeps: "keeps evolves s (parseVariableReassignment n s)"
  unfolding parseVariableReassignment_def Let_def
  by (intro keeps_intros)

lemma parseVariableDeclaration_keeps: "keeps evolves s (parseVariableDeclaration n s)"
proof -
  have pe_adv2: "keeps evolves s (parseExpression n p (advance (advance s)))" for p s
    by (rule keeps_trans [OF evolves_advance2 parseExpression_keeps])
  show ?thesis
    unfolding parseVariableDeclaration_def Let_def
    by (intro keeps_intros pe_adv2)
qed

lemma parseStatement_keeps: "keeps evolves s (parseStatement n s)"
  unfolding parseStatement_def parseIf_def parseWhile_def parseFor_def parseMatch_def
    parseFunctionDeclaration_def
  by (intro keeps_intros parseExpression_keeps parseVariableReassignment_keeps
      parseVariableDeclaration_keeps)

lemma cursor_moves_refl: "cursor_moves s s"
  by (simp add: cursor_moves_def)

lemma cursor_moves_trans: "cursor_moves s s1 \<Longrightarrow> cursor_moves s1 s2 \<Longrightarrow> cursor_moves s s2"
  by (auto simp: cursor_moves_def)

lemma cursor_moves_round:
  "evolves s s1 \<Longrightarrow> cursor_moves s (advance (s1\<lparr>Program_nodes := x\<rparr>))"
  by (auto simp: evolves_def cursor_moves_def advance_def)

lemma keeps_cursor_trans:
  "cursor_moves s s1 \<Longrightarrow> keeps cursor_moves s1 a \<Longrightarrow> keeps cursor_moves s a"
  by (cases a) (auto intro: cursor_moves_trans)

lemma keeps_evolves_cursor: "keeps evolves s a \<Longrightarrow> keeps cursor_moves s a"
  by (cases a) (simp_all add: evolves_def)

lemma parse_loop_keeps: "keeps cursor_moves s (parse_loop n s)"
proof (induction n arbitrary: s)
  case 0
  show ?case by simp
next
  case (Suc n)
  show ?case
  proof (cases "tk_index s < length (tokens s)")
    case False
    then show ?thesis by (simp add: cursor_moves_refl)
  next
    case True
    have st: "keeps evolves s (parseStatement n s)" by (rule parseStatement_keeps)
    show ?thesis
    proof (cases "parseStatement n s")
      case (Returned node s1)
      with st have "evolves s s1" by simp
      then have "cursor_moves s (advance (s1\<lparr>Program_nodes := Program_nodes s1 @ [node]\<rparr>))"
        by (rule cursor_moves_round)
      from keeps_cursor_trans [OF this Suc] show ?thesis using True Returned by simp
    next
      case (Raised e s1)
      with st have "evolves s s1" by simp
      then show ?thesis using True Raised by (simp add: evolves_def)
    next
      case OutOfFuel
      then show ?thesis using True by simp
    qed
  qed
qed

lemma parse_keeps: "keeps cursor_moves s (parse n s)"
proof (cases "parse_loop n s")
  case (Returned u s1)
  with parse_loop_keeps [of s n] have "cursor_moves s s1" by simp
  then show ?thesis using Returned by (simp add: parse_def cursor_moves_def)
next
  case (Raised e s1)
  with parse_loop_keeps [of s n] show ?thesis by (simp add: parse_def)
next
  case OutOfFuel
  then show ?thesis by (simp add: parse_def)
qed

lemma parse_loop_run:
  "parse_loop n s = Returned u s1 \<Longrightarrow>
   length (tokens s1) \<le> tk_index s1 \<and> Parser_errors s1 = Parser_errors s \<and>
   Program_nodes s1 = Program_nodes s @ statements n s"
proof (induction n arbitrary: s)
  case 0
  then show ?case by simp
next
  case (Suc n)
  show ?case
  proof (cases "tk_index s < length (tokens s)")
    case False
    with Suc.prems show ?thesis by simp
  next
    case True
    have st: "keeps evolves s (parseStatement n s)" by (rule parseStatement_keeps)
    show ?thesis
    proof (cases "parseStatement n s")
      case (Returned node s')
      let ?s2 = "advance (s'\<lparr>Program_nodes := Program_nodes s' @ [node]\<rparr>)"
      from Suc.prems True Returned have "parse_loop n ?s2 = Returned u s1" by simp
      from Suc.IH [OF this]
      have "length (tokens s1) \<le> tk_index s1" "Parser_errors s1 = Parser_errors ?s2"
        "Program_nodes s1 = Program_nodes ?s2 @ statements n ?s2" by simp_all
      moreover from st Returned have "evolves s s'" by simp
      then have "Parser_errors ?s2 = Parser_errors s"
        "Program_nodes ?s2 = Program_nodes s @ [node]"
        by (simp_all add: evolves_def advance_def)
      ultimately show ?thesis using True Returned by simp
    next
      case (Raised e s')
      with Suc.prems True show ?thesis by simp
    next
      case OutOfFuel
      with Suc.prems True show ?thesis by simp
    qed
  qed
qed

text \<open>
  C7 (failure and success of \<^verbatim>\<open>parse\<close>). When the loop of \<^verbatim>\<open>parse\<close> has come
  back, in a state \<open>s1\<close>: the cursor is exhausted; the list of diagnostics is the one the
  run started with; the list of the \<^verbatim>\<open>Program\<close> is the one the run started with
  followed by the statements of this run in parse order; and if the list of diagnostics is
  not empty, every diagnostic is displayed, in order, and the run ends with
  \<^verbatim>\<open>exit(1)\<close>, returning nothing, otherwise \<^verbatim>\<open>parse\<close> returns the
  \<^verbatim>\<open>Program\<close>. The witness runs the tokens of \<^verbatim>\<open>int y = b\<close> once with an empty
  list of diagnostics and once with a list of one.
\<close>

theorem parse_success_or_failure:
  assumes "parse_loop n s = Returned u s1"
  shows "length (tokens s1) \<le> tk_index s1 \<and>
     Parser_errors s1 = Parser_errors s \<and>
     Program_nodes s1 = Program_nodes s @ statements n s \<and>
     parse n s =
       (if Parser_errors s1 \<noteq> []
        then Raised (SystemExit 1) (s1\<lparr>stdout := stdout s1 @ map Displayed (Parser_errors s1)\<rparr>)
        else Returned Program s1)"
  using parse_loop_run [OF assms] assms by (simp add: parse_def)

lemma keeps_cursor_ok:
  "tk_index s \<le> length (tokens s) \<Longrightarrow> keeps cursor_moves s a \<Longrightarrow> keeps cursor_ok s a"
  by (cases a) (auto simp: cursor_moves_def cursor_ok_def)

lemma Parser_init_in_bounds:
  "tk_index (Parser_init fname toks s0) \<le> length (tokens (Parser_init fname toks s0))"
  by (cases toks) (simp_all add: Parser_init_def advance_def)

text \<open>
  C10 (cursor invariant). A new parser has its index within the token list. From any state
  whose index is within the token list, every operation, whether it returns or raises, ends
  in a state with the same token list and an index that has not decreased and is still
  within the list; \<^verbatim>\<open>nextToken\<close> is the token at the index when the index is below the
  length of the list, and \<^verbatim>\<open>None\<close> otherwise. The index is a natural number in the
  model, so it is never negative: the attribute starts at 0 and its only assignment adds 1.
\<close>

theorem cursor_invariant:
  assumes "tk_index s \<le> length (tokens s)"
  shows "tk_index (Parser_init fname toks s0) \<le> length (tokens (Parser_init fname toks s0)) \<and>
     cursor_ok s (advance s) \<and>
     keeps cursor_ok s (expect t s) \<and>
     nextToken s = (if tk_index s < length (tokens s) then Some (tokens s ! tk_index s) else None) \<and>
     keeps cursor_ok s (parseExpression n p s) \<and>
     keeps cursor_ok s (parseExpression_loop n p left s) \<and>
     keeps cursor_ok s (parseBinaryOperation n l s) \<and>
     keeps cursor_ok s (parsePrefixExpression n s) \<and>
     keeps cursor_ok s (parseGroupedExpression n s) \<and>
     keeps cursor_ok s (parseVariableReassignment n s) \<and>
     keeps cursor_ok s (parseVariableDeclaration n s) \<and>
     keeps cursor_ok s (parseStatement n s) \<and>
     keeps cursor_ok s (parse_loop n s) \<and>
     keeps cursor_ok s (parse n s)"
proof -
  note ok = keeps_cursor_ok [OF assms]
  note ev = keeps_cursor_ok [OF assms keeps_evolves_cursor]
  have "cursor_ok s (advance s)"
    using assms by (simp add: cursor_ok_def advance_def)
  moreover have "nextToken s =
      (if tk_index s < length (tokens s) then Some (tokens s ! tk_index s) else None)"
    by (simp add: nextToken_def)
  ultimately show ?thesis
    by (intro conjI Parser_init_in_bounds ev [OF keeps_expect] ev [OF parseExpression_keeps]
        ev [OF parseExpression_loop_keeps] ev [OF helper_keeps(1)] ev [OF helper_keeps(2)]
        ev [OF helper_keeps(3)] ev [OF parseVariableReassignment_keeps]
        ev [OF parseVariableDeclaration_keeps] ev [OF parseStatement_keeps]
        ok [OF parse_loop_keeps] ok [OF parse_keeps])
qed

theorem cursor_invariant_witness:
  "tk_index (Parser_init ''f''
      [mk_Token ''int'' tk_int, mk_Token ''y'' tk_identifier, mk_Token ''='' tk_assign,
       mk_Token ''b'' tk_identifier] fresh) \<le>
   length (tokens (Parser_init ''f''
      [mk_Token ''int'' tk_int, mk_Token ''y'' tk_identifier, mk_Token ''='' tk_assign,
       mk_Token ''b'' tk_identifier] fresh)) \<and>
   keeps cursor_ok (Parser_init ''f''
      [mk_Token ''int'' tk_int, mk_Token ''y'' tk_identifier, mk_Token ''='' tk_assign,
       mk_Token ''b'' tk_identifier] fresh)
     (parse 4 (Parser_init ''f''
      [mk_Token ''int'' tk_int, mk_Token ''y'' tk_identifier, mk_Token ''='' tk_assign,
       mk_Token ''b'' tk_identifier] fresh)) \<and>
   map_option tk_index (final (parse 4 (Parser_init ''f''
      [mk_Token ''int'' tk_int, mk_Token ''y'' tk_identifier, mk_Token ''='' tk_assign,
       mk_Token ''b'' tk_identifier] fresh))) = Some 4"
proof -
  let ?S = "Parser_init ''f''
      [mk_Token ''int'' tk_int, mk_Token ''y'' tk_identifier, mk_Token ''='' tk_assign,
       mk_Token ''b'' tk_identifier] fresh"
  have h: "tk_index ?S \<le> length (tokens ?S)" by (simp add: cursor_defs)
  have "map_option tk_index (final (parse 4 ?S)) = Some 4"
    by (simp add: parse_def stmt_defs eval_defs fresh_def Let_def)
  with h cursor_invariant [OF h, of _ _ _ _ 4] show ?thesis by blast
qed

theorem parse_success_or_failure_witness:
  "parse_loop 4 (Parser_init ''f''
      [mk_Token ''int'' tk_int, mk_Token ''y'' tk_identifier, mk_Token ''='' tk_assign,
       mk_Token ''b'' tk_identifier] fresh) =
     Returned ()
       (advance ((advance (advance (advance (Parser_init ''f''
          [mk_Token ''int'' tk_int, mk_Token ''y'' tk_identifier, mk_Token ''='' tk_assign,
           mk_Token ''b'' tk_identifier] fresh))))
          \<lparr>Program_nodes := [Some (VariableDeclaration (mk_Token ''int'' tk_int) ''y''
              (Some (Identifier ''b'')))]\<rparr>)) \<and>
   returned (parse 4 (Parser_init ''f''
      [mk_Token ''int'' tk_int, mk_Token ''y'' tk_identifier, mk_Token ''='' tk_assign,
       mk_Token ''b'' tk_identifier] fresh)) = Some Program \<and>
   parse_loop 4 (Parser_init ''f''
      [mk_Token ''int'' tk_int, mk_Token ''y'' tk_identifier, mk_Token ''='' tk_assign,
       mk_Token ''b'' tk_identifier]
      (fresh\<lparr>Parser_errors := [PEError (Location 1 0 ''f'' []) [] ''unexpected'' [] []]\<rparr>)) =
     Returned ()
       (advance ((advance (advance (advance (Parser_init ''f''
          [mk_Token ''int'' tk_int, mk_Token ''y'' tk_identifier, mk_Token ''='' tk_assign,
           mk_Token ''b'' tk_identifier]
          (fresh\<lparr>Parser_errors := [PEError (Location 1 0 ''f'' []) [] ''unexpected'' [] []]\<rparr>)))))
          \<lparr>Program_nodes := [Some (VariableDeclaration (mk_Token ''int'' tk_int) ''y''
              (Some (Identifier ''b'')))]\<rparr>)) \<and>
   raised (parse 4 (Parser_init ''f''
      [mk_Token ''int'' tk_int, mk_Token ''y'' tk_identifier, mk_Token ''='' tk_assign,
       mk_Token ''b'' tk_identifier]
      (fresh\<lparr>Parser_errors := [PEError (Location 1 0 ''f'' []) [] ''unexpected'' [] []]\<rparr>))) =
     Some (SystemExit 1) \<and>
   map_option stdout (final (parse 4 (Parser_init ''f''
      [mk_Token ''int'' tk_int, mk_Token ''y'' tk_identifier, mk_Token ''='' tk_assign,
       mk_Token ''b'' tk_identifier]
      (fresh\<lparr>Parser_errors := [PEError (Location 1 0 ''f'' []) [] ''unexpected'' [] []]\<rparr>)))) =
     Some [Displayed (PEError (Location 1 0 ''f'' []) [] ''unexpected'' [] [])]"
proof -
  let ?toks = "[mk_Token ''int'' tk_int, mk_Token ''y'' tk_identifier, mk_Token ''='' tk_assign,
       mk_Token ''b'' tk_identifier]"
  let ?d = "[Some (VariableDeclaration (mk_Token ''int'' tk_int) ''y'' (Some (Identifier ''b'')))]"
  let ?bad = "fresh\<lparr>Parser_errors := [PEError (Location 1 0 ''f'' []) [] ''unexpected'' [] []]\<rparr>"
  let ?S = "Parser_init ''f'' ?toks fresh"
  let ?T = "Parser_init ''f'' ?toks ?bad"
  let ?S1 = "advance ((advance (advance (advance ?S)))\<lparr>Program_nodes := ?d\<rparr>)"
  let ?T1 = "advance ((advance (advance (advance ?T)))\<lparr>Program_nodes := ?d\<rparr>)"
  have a: "parse_loop 4 ?S = Returned () ?S1"
    by (simp add: stmt_defs eval_defs fresh_def Let_def)
  have b: "parse_loop 4 ?T = Returned () ?T1"
    by (simp add: stmt_defs eval_defs fresh_def Let_def)
  have c: "Parser_errors ?S1 = []" "Parser_errors ?T1 = [PEError (Location 1 0 ''f'' []) [] ''unexpected'' [] []]"
    "stdout ?T1 = []"
    by (simp_all add: cursor_defs fresh_def)
  from parse_success_or_failure [OF a] parse_success_or_failure [OF b] a b c
  show ?thesis by simp
qed

end
